theory Spec2Isabelle
  imports Main "HOL-Library.Word"
begin

section \<open>JavaScript strings\<close>

text \<open>
  A JavaScript string is a sequence of 16-bit code units. \<open>str\<close> writes an ASCII
  literal as such a sequence.
\<close>

type_synonym jsstring = "16 word list"

definition str :: "string \<Rightarrow> jsstring" where
  "str s = map (\<lambda>c. of_nat (of_char c)) s"

text \<open>
  \<^verbatim>\<open>String.prototype.trim\<close> removes the code points of the productions WhiteSpace
  and LineTerminator of ECMAScript from both ends: TAB, LF, VT, FF, CR, SPACE, NBSP,
  U+1680, U+2000 to U+200A, U+2028, U+2029, U+202F, U+205F, U+3000 and U+FEFF.
\<close>

definition isWhiteSpace :: "16 word \<Rightarrow> bool" where
  "isWhiteSpace c \<longleftrightarrow>
     c \<in> {0x0009, 0x000A, 0x000B, 0x000C, 0x000D, 0x0020, 0x00A0, 0x1680,
          0x2000, 0x2001, 0x2002, 0x2003, 0x2004, 0x2005, 0x2006, 0x2007, 0x2008,
          0x2009, 0x200A, 0x2028, 0x2029, 0x202F, 0x205F, 0x3000, 0xFEFF}"

definition trim :: "jsstring \<Rightarrow> jsstring" where
  "trim s = rev (dropWhile isWhiteSpace (rev (dropWhile isWhiteSpace s)))"

text \<open>
  \<^verbatim>\<open>s.split(d)\<close> for a separator of one code unit: one piece more than there are
  separators, so the empty string splits into one empty piece. The result is never
  empty; the first branch of the \<open>case\<close> is there for totality only.
\<close>

fun split_on :: "16 word \<Rightarrow> jsstring \<Rightarrow> jsstring list" where
  "split_on d [] = [[]]"
| "split_on d (c # cs) =
     (if c = d then [] # split_on d cs
      else (case split_on d cs of [] \<Rightarrow> [[c]] | s # ss \<Rightarrow> (c # s) # ss))"

definition dot :: "16 word" where
  "dot = 0x2E"

text \<open>
  \<^verbatim>\<open>path.trim().split('.').filter(i => !!i)\<close>: a string is truthy when it is not
  empty.
\<close>

definition segments :: "jsstring \<Rightarrow> jsstring list" where
  "segments path = filter (\<lambda>i. i \<noteq> []) (split_on dot (trim path))"

text \<open>
  Two ways to describe a path without the code's own steps: the number of non-empty
  pieces of a split, here of the path as it is given, and a path that is written as a
  type name, a dot and a field name, the names without dots and the path without white
  space at its ends.
\<close>

definition nonempty_count :: "jsstring list \<Rightarrow> nat" where
  "nonempty_count xs = length (filter (\<lambda>i. i \<noteq> []) xs)"

definition written_as :: "jsstring \<Rightarrow> jsstring \<Rightarrow> jsstring \<Rightarrow> bool" where
  "written_as path type field \<longleftrightarrow>
     path = type @ dot # field \<and> type \<noteq> [] \<and> field \<noteq> [] \<and>
     dot \<notin> set type \<and> dot \<notin> set field \<and>
     \<not> isWhiteSpace (hd type) \<and> \<not> isWhiteSpace (last field)"

section \<open>Completions\<close>

text \<open>
  What can be thrown: an \<^verbatim>\<open>Error\<close> or a \<^verbatim>\<open>TypeError\<close> with its message, or a value
  raised by a collaborator that is not part of \<^verbatim>\<open>db2g.js\<close> (the compiler, the resolver
  engine, an adapter, the query layer), which is opaque here.
\<close>

datatype error = Error string | TypeError string | Foreign nat

text \<open>A synchronous call returns a value or throws.\<close>

datatype 'a result = Returned 'a | Threw error

text \<open>
  An \<^verbatim>\<open>async\<close> function never throws to its caller: the call returns a promise, and an
  exception raised in its body rejects that promise. The model is sequential: the state
  paired with a promise is the state when the promise has settled.
\<close>

datatype 'a promise = Fulfilled 'a | Rejected error

section \<open>Data\<close>

text \<open>
  The \<^verbatim>\<open>returns\<close> argument: a type name, or a one-element array for a list of that
  type. The \<^verbatim>\<open>params\<close> argument: an object from argument names to type names, its
  keys in insertion order.
\<close>

datatype gql_returns = TypeName jsstring | ListOf jsstring

type_synonym gql_params = "(jsstring \<times> jsstring) list"

text \<open>
  Resolver callbacks. \<open>UserFn\<close> is a function supplied by the caller; the others are the
  closures that the facade itself creates: \<^verbatim>\<open>() => name\<close> in the constructor and the five
  resolvers of \<^verbatim>\<open>withBuilder\<close>, four of which change the database schema.
\<close>

datatype builder = AddSchemaColumn | DropSchemaColumn | AddSchemaTable | DropSchemaTable

datatype 'fn resolver_fn =
    UserFn 'fn
  | GetAPIName jsstring
  | BuilderGetSchema
  | Builder builder

text \<open>
  The connection of a facade is a Knex instance or \<^verbatim>\<open>null\<close>. Of the instance the
  facade reads \<^verbatim>\<open>connection.connection().client.config\<close>, by which it is represented
  here: \<open>client\<close> is the property key that \<^verbatim>\<open>config.client\<close> converts to; \<open>connection_cfg\<close> is \<^verbatim>\<open>config.connection\<close>
  (\<open>None\<close> when falsy), of which only the \<^verbatim>\<open>database\<close> property is read (a connection
  string has none); \<open>exclude\<close> is \<^verbatim>\<open>config.exclude\<close>.
\<close>

record conn_cfg =
  database :: "jsstring option"

record knex_config =
  client :: jsstring
  connection_cfg :: "conn_cfg option"
  exclude :: "jsstring list option"

text \<open>
  \<^verbatim>\<open>this.drivers = { pg: PostgreSQL, mysql: Mysql }\<close> is a plain object, so a lookup
  also finds the properties inherited from \<^verbatim>\<open>Object.prototype\<close>: \<^verbatim>\<open>constructor\<close> is
  the function \<^verbatim>\<open>Object\<close>; the others are methods that are not constructors, and
  \<^verbatim>\<open>__proto__\<close> is the prototype object itself. All of them are truthy.
\<close>

datatype adapter = PostgreSQL | Mysql

datatype driver_entry = AdapterClass adapter | ObjectConstructor | NotAConstructor

definition inherited_names :: "jsstring list" where
  "inherited_names =
     [str ''__defineGetter__'', str ''__defineSetter__'', str ''hasOwnProperty'',
      str ''__lookupGetter__'', str ''__lookupSetter__'', str ''isPrototypeOf'',
      str ''propertyIsEnumerable'', str ''toString'', str ''valueOf'', str ''__proto__'',
      str ''toLocaleString'']"

definition drivers :: "jsstring \<Rightarrow> driver_entry option" where
  "drivers key =
     (if key = str ''pg'' then Some (AdapterClass PostgreSQL)
      else if key = str ''mysql'' then Some (AdapterClass Mysql)
      else if key = str ''constructor'' then Some ObjectConstructor
      else if key \<in> set inherited_names then Some NotAConstructor
      else None)"

text \<open>
  What \<^verbatim>\<open>this.dbDriver\<close> can hold: an adapter instance (a handle \<open>'d\<close> of the adapter
  class), or the Knex instance itself, which is what \<^verbatim>\<open>new Object(this.connection)\<close>
  returns.
\<close>

datatype 'd driver_ref = AdapterInstance adapter 'd | KnexInstance

text \<open>
  The compiler and the resolver engine are \<^verbatim>\<open>src/graphql/compiler.js\<close> and
  \<^verbatim>\<open>src/graphql/resolver.js\<close>, which the facade requires. The facade assigns their
  properties \<^verbatim>\<open>dbSchema\<close>, \<^verbatim>\<open>dbDriver\<close> and \<^verbatim>\<open>beforeHook\<close>; everything else they hold
  (type registry, rendered text, resolver map) is the private part \<open>'c\<close>, \<open>'r\<close>.
\<close>

record ('s, 'd, 'c) compiler_state =
  c_dbSchema :: "'s option"
  c_dbDriver :: "'d driver_ref option"
  c_private :: 'c

text \<open>
  The before-hook object \<^verbatim>\<open>{validator, rejected}\<close> of the resolver engine. \<open>None\<close> is
  a slot that holds no function (\<^verbatim>\<open>undefined\<close>, \<^verbatim>\<open>null\<close>).
\<close>

record 'fn before_hook =
  validator :: "'fn option"
  rejected :: "'fn option"

record ('fn, 'd, 'r) resolver_state =
  r_dbDriver :: "'d driver_ref option"
  beforeHook :: "'fn before_hook"
  r_private :: 'r

text \<open>The fields of a \<^verbatim>\<open>DB2Graphql\<close> instance (\<^verbatim>\<open>drivers\<close> is the constant above).\<close>

record ('fn, 's, 'd, 'c, 'r) facade =
  connection :: "knex_config option"
  dbSchema :: "'s option"
  gqlSchema :: "jsstring option"
  compiler :: "('s, 'd, 'c) compiler_state"
  resolver :: "('fn, 'd, 'r) resolver_state"
  dbDriver :: "'d driver_ref option"

text \<open>
  The methods of the collaborators that \<^verbatim>\<open>db2g.js\<close> calls and that are not part of it,
  taken as parameters: every theorem below holds for whatever they do. A method gets the
  state of its own object and returns it updated, with a value or an exception.
  \<open>Driver_getSchema\<close> is awaited, so a synchronous exception and a rejection have the
  same effect and both are \<open>Rejected\<close>. \<open>getAvailableTypes\<close> is the static method of an
  adapter class, which returns the column types of its database product. Objects that
  several fields refer to (the adapter instance, the schema descriptor) are handles
  here: a method changes the state of the object it is called on and no other.
\<close>

record ('fn, 's, 'd, 'c, 'r, 'm) env =
  new_Compiler :: "('s, 'd, 'c) compiler_state"
  new_Resolver :: "('fn, 'd, 'r) resolver_state"
  Compiler_addType :: "jsstring \<Rightarrow> jsstring \<Rightarrow> gql_returns \<Rightarrow> gql_params \<Rightarrow>
    ('s, 'd, 'c) compiler_state \<Rightarrow> unit result \<times> ('s, 'd, 'c) compiler_state"
  Compiler_addInput :: "jsstring \<Rightarrow> jsstring \<Rightarrow> gql_returns \<Rightarrow>
    ('s, 'd, 'c) compiler_state \<Rightarrow> unit result \<times> ('s, 'd, 'c) compiler_state"
  Compiler_getSDL :: "bool \<Rightarrow> bool \<Rightarrow>
    ('s, 'd, 'c) compiler_state \<Rightarrow> jsstring result \<times> ('s, 'd, 'c) compiler_state"
  Compiler_buildSchema ::
    "('s, 'd, 'c) compiler_state \<Rightarrow> unit result \<times> ('s, 'd, 'c) compiler_state"
  Resolver_add :: "jsstring \<Rightarrow> jsstring \<Rightarrow> 'fn resolver_fn \<Rightarrow>
    ('fn, 'd, 'r) resolver_state \<Rightarrow> unit result \<times> ('fn, 'd, 'r) resolver_state"
  Resolver_getResolvers :: "bool \<Rightarrow>
    ('fn, 'd, 'r) resolver_state \<Rightarrow> 'm result \<times> ('fn, 'd, 'r) resolver_state"
  new_Driver :: "adapter \<Rightarrow> knex_config \<Rightarrow> 'd result"
  Driver_getSchema :: "jsstring \<Rightarrow> jsstring list option \<Rightarrow> 'd \<Rightarrow> 's promise"
  getAvailableTypes :: "adapter \<Rightarrow> jsstring list"

section \<open>The facade: extending the schema\<close>

text \<open>A call of a method of \<^verbatim>\<open>this.compiler\<close> or \<^verbatim>\<open>this.resolver\<close>.\<close>

definition on_compiler ::
  "(('s, 'd, 'c) compiler_state \<Rightarrow> 'a result \<times> ('s, 'd, 'c) compiler_state) \<Rightarrow>
   ('fn, 's, 'd, 'c, 'r) facade \<Rightarrow> 'a result \<times> ('fn, 's, 'd, 'c, 'r) facade" where
  "on_compiler m f = (case m (compiler f) of (x, c') \<Rightarrow> (x, f\<lparr>compiler := c'\<rparr>))"

definition on_resolver ::
  "(('fn, 'd, 'r) resolver_state \<Rightarrow> 'a result \<times> ('fn, 'd, 'r) resolver_state) \<Rightarrow>
   ('fn, 's, 'd, 'c, 'r) facade \<Rightarrow> 'a result \<times> ('fn, 's, 'd, 'c, 'r) facade" where
  "on_resolver m f = (case m (resolver f) of (x, r') \<Rightarrow> (x, f\<lparr>resolver := r'\<rparr>))"

text \<open>Two statements in sequence: an exception in the first skips the second.\<close>

definition seq ::
  "('st \<Rightarrow> 'a result \<times> 'st) \<Rightarrow> ('st \<Rightarrow> 'b result \<times> 'st) \<Rightarrow> 'st \<Rightarrow> 'b result \<times> 'st" where
  "seq m k f = (case m f of (Returned x, f') \<Rightarrow> k f' | (Threw e, f') \<Rightarrow> (Threw e, f'))"

text \<open>
  \<^verbatim>\<open>add(type, field, returns, resolver, params = {})\<close>; \<open>Returned ()\<close> stands for
  \<^verbatim>\<open>return this\<close>, the instance being the state that is returned with it.
\<close>

definition add ::
  "('fn, 's, 'd, 'c, 'r, 'm) env \<Rightarrow> jsstring \<Rightarrow> jsstring \<Rightarrow> gql_returns \<Rightarrow>
   'fn resolver_fn \<Rightarrow> gql_params \<Rightarrow>
   ('fn, 's, 'd, 'c, 'r) facade \<Rightarrow> unit result \<times> ('fn, 's, 'd, 'c, 'r) facade" where
  "add E type field returns rfn params =
     seq (on_compiler (Compiler_addType E type field returns params))
         (on_resolver (Resolver_add E type field rfn))"

text \<open>
  \<^verbatim>\<open>addField(path, returns, resolver, params = {})\<close>. The two \<^verbatim>\<open>pop()\<close> take the last
  and the last but one of at least two segments.
\<close>

definition addField ::
  "('fn, 's, 'd, 'c, 'r, 'm) env \<Rightarrow> jsstring \<Rightarrow> gql_returns \<Rightarrow>
   'fn resolver_fn \<Rightarrow> gql_params \<Rightarrow>
   ('fn, 's, 'd, 'c, 'r) facade \<Rightarrow> unit result \<times> ('fn, 's, 'd, 'c, 'r) facade" where
  "addField E path returns rfn params f =
     (let segs = segments path in
      if length segs < 2 then (Threw (Error ''addField path must be in format Type.field''), f)
      else
        let field = last segs;
            type = last (butlast segs)
        in add E type field returns rfn params f)"

text \<open>\<^verbatim>\<open>addInput(path, subType)\<close>.\<close>

definition addInput ::
  "('fn, 's, 'd, 'c, 'r, 'm) env \<Rightarrow> jsstring \<Rightarrow> gql_returns \<Rightarrow>
   ('fn, 's, 'd, 'c, 'r) facade \<Rightarrow> unit result \<times> ('fn, 's, 'd, 'c, 'r) facade" where
  "addInput E path subType f =
     (let segs = segments path in
      if length segs < 2 then (Threw (Error ''addInput path must be in format Input.field''), f)
      else
        let field = last segs;
            type = last (butlast segs)
        in on_compiler (Compiler_addInput E type field subType) f)"

text \<open>
  The constructor \<^verbatim>\<open>constructor(name = '', db = null)\<close>: a non-empty name registers
  \<^verbatim>\<open>Query.getAPIName\<close>.
\<close>

definition DB2Graphql ::
  "('fn, 's, 'd, 'c, 'r, 'm) env \<Rightarrow> jsstring \<Rightarrow> knex_config option \<Rightarrow>
   unit result \<times> ('fn, 's, 'd, 'c, 'r) facade" where
  "DB2Graphql E name db =
     (let this = \<lparr>connection = db, dbSchema = None, gqlSchema = None,
                  compiler = new_Compiler E, resolver = new_Resolver E, dbDriver = None\<rparr>
      in if name \<noteq> []
         then add E (str ''Query'') (str ''getAPIName'') (TypeName (str ''String''))
                (GetAPIName name) [] this
         else (Returned (), this))"

section \<open>The facade: the before-hook\<close>

text \<open>
  \<^verbatim>\<open>onBefore(validator, rejected)\<close>. The validator slot is assigned whatever is
  passed; the rejected slot only when the argument is truthy, that is, a function.
\<close>

definition onBefore ::
  "'fn option \<Rightarrow> 'fn option \<Rightarrow>
   ('fn, 's, 'd, 'c, 'r) facade \<Rightarrow> unit result \<times> ('fn, 's, 'd, 'c, 'r) facade" where
  "onBefore v r f =
     (let h1 = (beforeHook (resolver f))\<lparr>validator := v\<rparr>;
          h2 = (case r of None \<Rightarrow> h1 | Some g \<Rightarrow> h1\<lparr>rejected := Some g\<rparr>)
      in (Returned (), f\<lparr>resolver := (resolver f)\<lparr>beforeHook := h2\<rparr>\<rparr>))"

section \<open>The facade: connecting\<close>

text \<open>
  \<^verbatim>\<open>namespace = namespace || config.connection.database || 'public'\<close>, after
  \<^verbatim>\<open>config.connection = config.connection || {}\<close>.
\<close>

definition with_connection_cfg :: "knex_config \<Rightarrow> knex_config" where
  "with_connection_cfg config =
     config\<lparr>connection_cfg :=
       Some (case connection_cfg config of None \<Rightarrow> \<lparr>database = None\<rparr> | Some c \<Rightarrow> c)\<rparr>"

definition choose_namespace :: "jsstring \<Rightarrow> knex_config \<Rightarrow> jsstring" where
  "choose_namespace namespace config =
     (if namespace \<noteq> [] then namespace
      else (case connection_cfg config of
              None \<Rightarrow> str ''public''
            | Some c \<Rightarrow>
                (case database c of
                   None \<Rightarrow> str ''public''
                 | Some d \<Rightarrow> if d \<noteq> [] then d else str ''public'')))"

text \<open>
  The body of \<^verbatim>\<open>async connect(namespace = '')\<close>, line by line. An exception anywhere
  in it rejects the promise; the assignments made before it stay.
\<close>

definition connect_body ::
  "('fn, 's, 'd, 'c, 'r, 'm) env \<Rightarrow> jsstring \<Rightarrow>
   ('fn, 's, 'd, 'c, 'r) facade \<Rightarrow> unit promise \<times> ('fn, 's, 'd, 'c, 'r) facade" where
  "connect_body E namespace f =
     (case connection f of
        None \<Rightarrow> (Rejected (Error ''Invalid Knex instance''), f)
      | Some config \<Rightarrow>
          (case drivers (client config) of
             None \<Rightarrow> (Rejected (Error ''Database driver not available''), f)
           | Some entry \<Rightarrow>
               let config' = with_connection_cfg config;
                   f1 = f\<lparr>connection := Some config'\<rparr>;
                   ns = choose_namespace namespace config'
               in (case entry of
                     NotAConstructor \<Rightarrow>
                       (Rejected (TypeError ''this.drivers[drivername] is not a constructor''), f1)
                   | ObjectConstructor \<Rightarrow>
                       (Rejected (TypeError ''this.dbDriver.getSchema is not a function''),
                        f1\<lparr>dbDriver := Some KnexInstance\<rparr>)
                   | AdapterClass a \<Rightarrow>
                       (case new_Driver E a config' of
                          Threw e \<Rightarrow> (Rejected e, f1)
                        | Returned d \<Rightarrow>
                            let f2 = f1\<lparr>dbDriver := Some (AdapterInstance a d)\<rparr>
                            in (case Driver_getSchema E ns (exclude config') d of
                                  Rejected e \<Rightarrow> (Rejected e, f2)
                                | Fulfilled s \<Rightarrow>
                                    let f3 = f2\<lparr>dbSchema := Some s\<rparr>;
                                        f4 = f3\<lparr>compiler := (compiler f3)
                                                 \<lparr>c_dbSchema := dbSchema f3,
                                                  c_dbDriver := dbDriver f3\<rparr>,
                                               resolver := (resolver f3)
                                                 \<lparr>r_dbDriver := dbDriver f3\<rparr>\<rparr>
                                    in (case Compiler_buildSchema E (compiler f4) of
                                          (Threw e, c') \<Rightarrow> (Rejected e, f4\<lparr>compiler := c'\<rparr>)
                                        | (Returned u, c') \<Rightarrow>
                                            (Fulfilled (), f4\<lparr>compiler := c'\<rparr>)))))))"

text \<open>A call of an \<^verbatim>\<open>async\<close> method returns its promise; it never throws.\<close>

definition async :: "'a promise \<times> 'st \<Rightarrow> 'a promise result \<times> 'st" where
  "async ps = (Returned (fst ps), snd ps)"

definition connect ::
  "('fn, 's, 'd, 'c, 'r, 'm) env \<Rightarrow> jsstring \<Rightarrow>
   ('fn, 's, 'd, 'c, 'r) facade \<Rightarrow> unit promise result \<times> ('fn, 's, 'd, 'c, 'r) facade" where
  "connect E namespace f = async (connect_body E namespace f)"

text \<open>
  \<^verbatim>\<open>async getDatabaseSchema(refresh = false)\<close>; a schema descriptor is an object, so
  \<^verbatim>\<open>!this.dbSchema\<close> holds exactly when the field is still \<^verbatim>\<open>null\<close>.
\<close>

definition getDatabaseSchema_body ::
  "('fn, 's, 'd, 'c, 'r, 'm) env \<Rightarrow> bool \<Rightarrow>
   ('fn, 's, 'd, 'c, 'r) facade \<Rightarrow> 's option promise \<times> ('fn, 's, 'd, 'c, 'r) facade" where
  "getDatabaseSchema_body E refresh f =
     (if dbSchema f = None \<or> refresh
      then (case connect_body E [] f of
              (Rejected e, f') \<Rightarrow> (Rejected e, f')
            | (Fulfilled u, f') \<Rightarrow> (Fulfilled (dbSchema f'), f'))
      else (Fulfilled (dbSchema f), f))"

definition getDatabaseSchema ::
  "('fn, 's, 'd, 'c, 'r, 'm) env \<Rightarrow> bool \<Rightarrow>
   ('fn, 's, 'd, 'c, 'r) facade \<Rightarrow>
   's option promise result \<times> ('fn, 's, 'd, 'c, 'r) facade" where
  "getDatabaseSchema E refresh f = async (getDatabaseSchema_body E refresh f)"

section \<open>The facade: schema text and resolvers\<close>

text \<open>\<^verbatim>\<open>!!this.connection\<close>: a Knex instance is truthy, \<^verbatim>\<open>null\<close> is not.\<close>

definition hasConnection :: "('fn, 's, 'd, 'c, 'r) facade \<Rightarrow> bool" where
  "hasConnection f \<longleftrightarrow> connection f \<noteq> None"

text \<open>\<^verbatim>\<open>getResolvers()\<close>.\<close>

definition getResolvers ::
  "('fn, 's, 'd, 'c, 'r, 'm) env \<Rightarrow>
   ('fn, 's, 'd, 'c, 'r) facade \<Rightarrow> 'm result \<times> ('fn, 's, 'd, 'c, 'r) facade" where
  "getResolvers E f = on_resolver (Resolver_getResolvers E (hasConnection f)) f"

text \<open>
  \<^verbatim>\<open>getSchema(refresh = false)\<close>. \<^verbatim>\<open>!this.gqlSchema\<close> holds for \<^verbatim>\<open>null\<close> and for the
  empty string. When \<^verbatim>\<open>getSDL\<close> throws, the field is not assigned.
\<close>

definition render ::
  "('fn, 's, 'd, 'c, 'r, 'm) env \<Rightarrow> bool \<Rightarrow>
   ('fn, 's, 'd, 'c, 'r) facade \<Rightarrow> jsstring result \<times> ('fn, 's, 'd, 'c, 'r) facade" where
  "render E refresh f =
     (case Compiler_getSDL E refresh (hasConnection f) (compiler f) of
        (Threw e, c') \<Rightarrow> (Threw e, f\<lparr>compiler := c'\<rparr>)
      | (Returned t, c') \<Rightarrow> (Returned t, f\<lparr>compiler := c', gqlSchema := Some t\<rparr>))"

definition getSchema ::
  "('fn, 's, 'd, 'c, 'r, 'm) env \<Rightarrow> bool \<Rightarrow>
   ('fn, 's, 'd, 'c, 'r) facade \<Rightarrow> jsstring result \<times> ('fn, 's, 'd, 'c, 'r) facade" where
  "getSchema E refresh f =
     (case gqlSchema f of
        None \<Rightarrow> render E refresh f
      | Some t \<Rightarrow> if t = [] \<or> refresh then render E refresh f else (Returned t, f))"

section \<open>The facade: the schema builder\<close>

definition queryAlterColumnParams :: gql_params where
  "queryAlterColumnParams =
     [(str ''tablename'', str ''String!''), (str ''columnname'', str ''String!''),
      (str ''type'', str ''String!''), (str ''foreign'', str ''String'')]"

definition queryDropColumnParams :: gql_params where
  "queryDropColumnParams =
     [(str ''tablename'', str ''String!''), (str ''columnname'', str ''String!'')]"

definition queryAddTableParams :: gql_params where
  "queryAddTableParams =
     [(str ''tablename'', str ''String!''), (str ''primary'', str ''String!''),
      (str ''type'', str ''String!''), (str ''increments'', str ''Boolean'')]"

text \<open>\<^verbatim>\<open>withBuilder()\<close>: five calls of \<^verbatim>\<open>this.add\<close>.\<close>

definition withBuilder ::
  "('fn, 's, 'd, 'c, 'r, 'm) env \<Rightarrow>
   ('fn, 's, 'd, 'c, 'r) facade \<Rightarrow> unit result \<times> ('fn, 's, 'd, 'c, 'r) facade" where
  "withBuilder E =
     seq (add E (str ''Query'') (str ''getSchema'') (TypeName (str ''String''))
            BuilderGetSchema [])
    (seq (add E (str ''Query'') (str ''addSchemaColumn'') (TypeName (str ''Boolean''))
            (Builder AddSchemaColumn) queryAlterColumnParams)
    (seq (add E (str ''Query'') (str ''dropSchemaColumn'') (TypeName (str ''Boolean''))
            (Builder DropSchemaColumn) queryDropColumnParams)
    (seq (add E (str ''Query'') (str ''addSchemaTable'') (TypeName (str ''Boolean''))
            (Builder AddSchemaTable) queryAddTableParams)
         (add E (str ''Query'') (str ''dropSchemaTable'') (TypeName (str ''Boolean''))
            (Builder DropSchemaTable) [(str ''tablename'', str ''String!'')]))))"

section \<open>The resolvers of the schema builder\<close>

text \<open>
  The arguments that the four resolvers read from \<^verbatim>\<open>args\<close>. The flags are the
  truthiness of \<^verbatim>\<open>args.unique\<close>, \<^verbatim>\<open>args.index\<close> and \<^verbatim>\<open>args.increments\<close>; an optional
  string is \<open>None\<close> when it is not given.
\<close>

record builder_args =
  arg_tablename :: jsstring
  arg_columnname :: jsstring
  arg_type :: jsstring
  arg_primary :: jsstring
  arg_default :: "jsstring option"
  arg_foreign :: "jsstring option"
  arg_unique :: bool
  arg_index :: bool
  arg_increments :: bool

text \<open>
  What a resolver asks of the query layer: \<^verbatim>\<open>db.schema.table\<close>,
  \<^verbatim>\<open>db.schema.createTable\<close> or \<^verbatim>\<open>db.schema.dropTable\<close>, and for the first two the calls
  that the callback makes on the table builder, in order.
\<close>

datatype table_call =
    Column jsstring jsstring "jsstring option"
  | Unique jsstring
  | Index jsstring
  | ForeignReferences jsstring jsstring
  | DropColumn jsstring
  | Increments jsstring
  | PrimaryColumn jsstring jsstring

datatype ddl =
    AlterTable jsstring "table_call list"
  | CreateTable jsstring "table_call list"
  | DropTable jsstring

text \<open>\<^verbatim>\<open>x || null\<close> and \<^verbatim>\<open>if (x)\<close> for an optional string.\<close>

definition truthy :: "jsstring option \<Rightarrow> bool" where
  "truthy x = (case x of None \<Rightarrow> False | Some s \<Rightarrow> s \<noteq> [])"

definition or_null :: "jsstring option \<Rightarrow> jsstring option" where
  "or_null x = (if truthy x then x else None)"

definition ddl_of :: "builder \<Rightarrow> builder_args \<Rightarrow> ddl" where
  "ddl_of b args =
     (case b of
        AddSchemaColumn \<Rightarrow>
          AlterTable (arg_tablename args)
            ([Column (arg_type args) (arg_columnname args) (or_null (arg_default args))]
             @ (if arg_unique args then [Unique (arg_columnname args)] else [])
             @ (if arg_index args then [Index (arg_columnname args)] else [])
             @ (case arg_foreign args of
                  None \<Rightarrow> []
                | Some r \<Rightarrow> if r \<noteq> [] then [ForeignReferences (arg_columnname args) r] else []))
      | DropSchemaColumn \<Rightarrow>
          AlterTable (arg_tablename args) [DropColumn (arg_columnname args)]
      | AddSchemaTable \<Rightarrow>
          CreateTable (arg_tablename args)
            [if arg_increments args then Increments (arg_primary args)
             else PrimaryColumn (arg_type args) (arg_primary args)]
      | DropSchemaTable \<Rightarrow> DropTable (arg_tablename args))"

text \<open>
  \<^verbatim>\<open>try { await db.schema...; return true } catch (err) { return false }\<close>. The query
  layer \<open>exec\<close> is a parameter: it runs a request on the database \<open>'db\<close> and reports
  the error, if any, that the \<^verbatim>\<open>await\<close> raises (thrown by the call, by the callback, or
  as a rejection).
\<close>

definition try_ddl ::
  "(ddl \<Rightarrow> 'db \<Rightarrow> error option \<times> 'db) \<Rightarrow> ddl \<Rightarrow> 'db \<Rightarrow> bool promise \<times> 'db" where
  "try_ddl exec req db =
     (case exec req db of
        (None, db') \<Rightarrow> (Fulfilled True, db')
      | (Some err, db') \<Rightarrow> (Fulfilled False, db'))"

text \<open>
  \<^verbatim>\<open>resolver.dbDriver.constructor.getAvailableTypes()\<close>, which stands before the
  \<^verbatim>\<open>try\<close>: without a driver the property access raises a \<^verbatim>\<open>TypeError\<close>.
\<close>

definition availableTypes ::
  "('fn, 's, 'd, 'c, 'r, 'm) env \<Rightarrow> 'd driver_ref option \<Rightarrow> jsstring list result" where
  "availableTypes E drv =
     (case drv of
        None \<Rightarrow> Threw (TypeError ''Cannot read properties of null'')
      | Some KnexInstance \<Rightarrow>
          Threw (TypeError ''resolver.dbDriver.constructor.getAvailableTypes is not a function'')
      | Some (AdapterInstance a d) \<Rightarrow> Returned (getAvailableTypes E a))"

definition checked_ddl ::
  "('fn, 's, 'd, 'c, 'r, 'm) env \<Rightarrow> (ddl \<Rightarrow> 'db \<Rightarrow> error option \<times> 'db) \<Rightarrow>
   builder \<Rightarrow> builder_args \<Rightarrow> ('fn, 'd, 'r) resolver_state \<Rightarrow> 'db \<Rightarrow> bool promise \<times> 'db" where
  "checked_ddl E exec b args rs db =
     (case availableTypes E (r_dbDriver rs) of
        Threw e \<Rightarrow> (Rejected e, db)
      | Returned types \<Rightarrow>
          if arg_type args \<notin> set types then (Fulfilled False, db)
          else try_ddl exec (ddl_of b args) db)"

text \<open>
  The four resolvers, called with \<^verbatim>\<open>context.ioc = {resolver, db}\<close>: the resolver engine
  \<open>rs\<close> and the query layer's database \<open>db\<close>.
\<close>

definition run_builder ::
  "('fn, 's, 'd, 'c, 'r, 'm) env \<Rightarrow> (ddl \<Rightarrow> 'db \<Rightarrow> error option \<times> 'db) \<Rightarrow>
   builder \<Rightarrow> builder_args \<Rightarrow> ('fn, 'd, 'r) resolver_state \<Rightarrow> 'db \<Rightarrow> bool promise \<times> 'db" where
  "run_builder E exec b args rs db =
     (case b of
        AddSchemaColumn \<Rightarrow> checked_ddl E exec AddSchemaColumn args rs db
      | DropSchemaColumn \<Rightarrow> try_ddl exec (ddl_of DropSchemaColumn args) db
      | AddSchemaTable \<Rightarrow> checked_ddl E exec AddSchemaTable args rs db
      | DropSchemaTable \<Rightarrow> try_ddl exec (ddl_of DropSchemaTable args) db)"

definition checks_type :: "builder \<Rightarrow> bool" where
  "checks_type b \<longleftrightarrow> b = AddSchemaColumn \<or> b = AddSchemaTable"

section \<open>Sequences of calls\<close>

text \<open>The public methods of the facade, and the state that a sequence of calls leaves.\<close>

datatype 'fn call =
    CallAdd jsstring jsstring gql_returns "'fn resolver_fn" gql_params
  | CallAddField jsstring gql_returns "'fn resolver_fn" gql_params
  | CallAddInput jsstring gql_returns
  | CallOnBefore "'fn option" "'fn option"
  | CallConnect jsstring
  | CallGetDatabaseSchema bool
  | CallGetResolvers
  | CallGetSchema bool
  | CallWithBuilder

definition after_call ::
  "('fn, 's, 'd, 'c, 'r, 'm) env \<Rightarrow> 'fn call \<Rightarrow>
   ('fn, 's, 'd, 'c, 'r) facade \<Rightarrow> ('fn, 's, 'd, 'c, 'r) facade" where
  "after_call E c f =
     (case c of
        CallAdd type field returns rfn params \<Rightarrow> snd (add E type field returns rfn params f)
      | CallAddField path returns rfn params \<Rightarrow> snd (addField E path returns rfn params f)
      | CallAddInput path subType \<Rightarrow> snd (addInput E path subType f)
      | CallOnBefore v r \<Rightarrow> snd (onBefore v r f)
      | CallConnect namespace \<Rightarrow> snd (connect E namespace f)
      | CallGetDatabaseSchema refresh \<Rightarrow> snd (getDatabaseSchema E refresh f)
      | CallGetResolvers \<Rightarrow> snd (getResolvers E f)
      | CallGetSchema refresh \<Rightarrow> snd (getSchema E refresh f)
      | CallWithBuilder \<Rightarrow> snd (withBuilder E f))"

fun after_calls ::
  "('fn, 's, 'd, 'c, 'r, 'm) env \<Rightarrow> 'fn call list \<Rightarrow>
   ('fn, 's, 'd, 'c, 'r) facade \<Rightarrow> ('fn, 's, 'd, 'c, 'r) facade" where
  "after_calls E [] f = f"
| "after_calls E (c # cs) f = after_calls E cs (after_call E c f)"

text \<open>
  What the methods other than \<^verbatim>\<open>getSchema\<close> leave alone: the cached schema text and
  whether there is a connection.
\<close>

definition cache_and_flag :: "('fn, 's, 'd, 'c, 'r) facade \<Rightarrow> jsstring option \<times> bool" where
  "cache_and_flag f = (gqlSchema f, hasConnection f)"

text \<open>
  The before-hook of the facade's resolver engine, and the condition under which its
  slots are the engine's own business: the two methods of the engine that the facade
  calls do not assign them.
\<close>

definition hook :: "('fn, 's, 'd, 'c, 'r) facade \<Rightarrow> 'fn before_hook" where
  "hook f = beforeHook (resolver f)"

definition keeps_hook :: "('fn, 's, 'd, 'c, 'r, 'm) env \<Rightarrow> bool" where
  "keeps_hook E \<longleftrightarrow>
     (\<forall>t fl rfn r. beforeHook (snd (Resolver_add E t fl rfn r)) = beforeHook r) \<and>
     (\<forall>b r. beforeHook (snd (Resolver_getResolvers E b r)) = beforeHook r)"

section \<open>Relation naming\<close>

text \<open>
  Modelled from the spec: a foreign key of the schema descriptor, \<^verbatim>\<open>{column,
  referencedTable, referencedColumn}\<close>. The schema compiler that reads it,
  \<^verbatim>\<open>src/graphql/compiler.js\<close>, is required by \<^verbatim>\<open>db2g.js\<close> and is not among the sources.
\<close>

record foreign_key =
  fk_column :: jsstring
  fk_referencedTable :: jsstring
  fk_referencedColumn :: jsstring

text \<open>
  Modelled from the spec: what the relation naming algorithm of the absent schema
  compiler leaves open. The spec derives a candidate name from the column \<open>C\<close> and the
  referenced table \<open>R\<close> and uses a short deterministic hash of \<open>(T, C, R)\<close>, and fixes
  neither function, so both are parameters.
\<close>

record naming =
  candidate :: "jsstring \<Rightarrow> jsstring \<Rightarrow> jsstring"
  short_hash :: "jsstring \<Rightarrow> jsstring \<Rightarrow> jsstring \<Rightarrow> jsstring"

text \<open>
  Modelled from the spec: the name of the relation field for a foreign key of table \<open>T\<close>
  in the absent schema compiler. \<open>used\<close> are the field names already assigned on the
  type. When the candidate is already used, the column name is appended to it, and when
  that is used too, the hash is appended as well.
\<close>

definition relation_field_name ::
  "naming \<Rightarrow> jsstring \<Rightarrow> jsstring list \<Rightarrow> foreign_key \<Rightarrow> jsstring" where
  "relation_field_name N T used fk =
     (let cand = candidate N (fk_column fk) (fk_referencedTable fk) in
      if cand \<notin> set used then cand
      else
        let suffixed = cand @ fk_column fk in
        if suffixed \<notin> set used then suffixed
        else suffixed @ short_hash N T (fk_column fk) (fk_referencedTable fk))"

text \<open>
  Modelled from the spec: the name-resolution table of one table in the absent schema
  compiler, from \<open>(sourceTable, foreignKeyColumn)\<close> to the field name. The foreign keys
  are taken in the order of the descriptor, and each assigned name joins the used ones.
\<close>

fun name_relations ::
  "naming \<Rightarrow> jsstring \<Rightarrow> jsstring list \<Rightarrow> foreign_key list \<Rightarrow>
   ((jsstring \<times> jsstring) \<times> jsstring) list" where
  "name_relations N T used [] = []"
| "name_relations N T used (fk # fks) =
     (let n = relation_field_name N T used fk
      in ((T, fk_column fk), n) # name_relations N T (n # used) fks)"





section \<open>A small instance of the collaborators\<close>

text \<open>
  An instance of the parameters, for evaluating the facade on concrete inputs. Its
  compiler keeps the registered \<open>(type, field)\<close> pairs and counts its renderings; the
  text it renders has one entry for each pair, after a marker when it is told that there
  is a connection. Its resolver engine keeps the registered pairs.
\<close>

type_synonym example_facade =
  "(nat, nat, nat, (jsstring \<times> jsstring) list \<times> nat, (jsstring \<times> jsstring) list) facade"

definition example_entries :: "(jsstring \<times> jsstring) list \<Rightarrow> jsstring" where
  "example_entries reg = concat (map (\<lambda>(t, fl). str ''type '' @ t @ str ''.'' @ fl @ str '';'') reg)"

definition example_register ::
  "jsstring \<Rightarrow> jsstring \<Rightarrow>
   (nat, nat, (jsstring \<times> jsstring) list \<times> nat) compiler_state \<Rightarrow>
   unit result \<times> (nat, nat, (jsstring \<times> jsstring) list \<times> nat) compiler_state" where
  "example_register t fl c =
     (Returned (), c\<lparr>c_private := (fst (c_private c) @ [(t, fl)], snd (c_private c))\<rparr>)"

definition example_getSDL ::
  "bool \<Rightarrow> bool \<Rightarrow>
   (nat, nat, (jsstring \<times> jsstring) list \<times> nat) compiler_state \<Rightarrow>
   jsstring result \<times> (nat, nat, (jsstring \<times> jsstring) list \<times> nat) compiler_state" where
  "example_getSDL refresh withDatabase c =
     (Returned ((if withDatabase then str ''#tables;'' else []) @
                example_entries (fst (c_private c))),
      c\<lparr>c_private := (fst (c_private c), Suc (snd (c_private c)))\<rparr>)"

definition example_env ::
  "(nat, nat, nat, (jsstring \<times> jsstring) list \<times> nat, (jsstring \<times> jsstring) list,
    (jsstring \<times> jsstring) list) env" where
  "example_env =
     \<lparr>new_Compiler = \<lparr>c_dbSchema = None, c_dbDriver = None, c_private = ([], 0)\<rparr>,
      new_Resolver = \<lparr>r_dbDriver = None,
                      beforeHook = \<lparr>validator = None, rejected = None\<rparr>,
                      r_private = []\<rparr>,
      Compiler_addType = (\<lambda>t fl returns params. example_register t fl),
      Compiler_addInput = (\<lambda>t fl subType. example_register t fl),
      Compiler_getSDL = example_getSDL,
      Compiler_buildSchema = (\<lambda>c. (Returned (), c)),
      Resolver_add = (\<lambda>t fl rfn r. (Returned (), r\<lparr>r_private := r_private r @ [(t, fl)]\<rparr>)),
      Resolver_getResolvers = (\<lambda>withDatabase r. (Returned (r_private r), r)),
      new_Driver = (\<lambda>a config. Returned 0),
      Driver_getSchema = (\<lambda>ns excl d. Fulfilled 0),
      getAvailableTypes = (\<lambda>a. [str ''integer'', str ''string'', str ''boolean''])\<rparr>"

text \<open>A facade with no connection and one with a connection to PostgreSQL.\<close>

definition example_config :: "jsstring \<Rightarrow> knex_config" where
  "example_config key = \<lparr>client = key, connection_cfg = None, exclude = None\<rparr>"

definition example_facade :: "knex_config option \<Rightarrow> example_facade" where
  "example_facade db = snd (DB2Graphql example_env [] db)"

text \<open>A query layer that refuses to drop anything and performs the rest.\<close>

definition example_exec :: "ddl \<Rightarrow> ddl list \<Rightarrow> error option \<times> ddl list" where
  "example_exec req db =
     (case req of
        DropTable t \<Rightarrow> (Some (Foreign 1), db)
      | AlterTable t calls \<Rightarrow>
          if calls = [DropColumn (str ''id'')] then (Some (Foreign 2), db)
          else (None, db @ [req])
      | CreateTable t calls \<Rightarrow> (None, db @ [req]))"

definition example_args :: builder_args where
  "example_args =
     \<lparr>arg_tablename = str ''posts'', arg_columnname = str ''id'', arg_type = str ''integer'',
      arg_primary = str ''id'', arg_default = None, arg_foreign = None,
      arg_unique = False, arg_index = False, arg_increments = False\<rparr>"

text \<open>A resolver engine with a PostgreSQL adapter attached, as \<^verbatim>\<open>connect\<close> leaves it.\<close>

definition example_resolver :: "(nat, nat, (jsstring \<times> jsstring) list) resolver_state" where
  "example_resolver =
     \<lparr>r_dbDriver = Some (AdapterInstance PostgreSQL 0),
      beforeHook = \<lparr>validator = None, rejected = None\<rparr>, r_private = []\<rparr>"

text \<open>
  The facade without connection after \<^verbatim>\<open>add('Query', 'hello', ...)\<close>, and after the
  first \<^verbatim>\<open>getSchema()\<close> that follows.
\<close>

definition example_registered :: example_facade where
  "example_registered =
     (example_facade None)
       \<lparr>compiler := \<lparr>c_dbSchema = None, c_dbDriver = None,
                      c_private = ([(str ''Query'', str ''hello'')], 0)\<rparr>,
        resolver := \<lparr>r_dbDriver = None, beforeHook = \<lparr>validator = None, rejected = None\<rparr>,
                      r_private = [(str ''Query'', str ''hello'')]\<rparr>\<rparr>"

definition example_rendered :: example_facade where
  "example_rendered =
     example_registered
       \<lparr>gqlSchema := Some (str ''type Query.hello;''),
        compiler := \<lparr>c_dbSchema = None, c_dbDriver = None,
                      c_private = ([(str ''Query'', str ''hello'')], 1)\<rparr>\<rparr>"





section \<open>Paths of \<^verbatim>\<open>addField\<close> and \<^verbatim>\<open>addInput\<close>\<close>

lemma add_registers:
  assumes "Compiler_addType E type field returns params (compiler f) = (Returned (), c')"
      and "Resolver_add E type field rfn (resolver (f\<lparr>compiler := c'\<rparr>)) = (Returned (), r')"
  shows "add E type field returns rfn params f = (Returned (), f\<lparr>compiler := c', resolver := r'\<rparr>)"
  using assms by (simp add: add_def seq_def on_compiler_def on_resolver_def)

lemma addField_pops:
  assumes "segments path = leading @ [type, field]"
  shows "addField E path returns rfn params f = add E type field returns rfn params f"
  using assms by (simp add: addField_def Let_def butlast_append)


text \<open>
  A path written as a type name, a dot and a field name has exactly these two segments,
  when the names contain no dot and the path neither starts nor ends with white space.
\<close>

lemma split_on_no_separator: "d \<notin> set s \<Longrightarrow> split_on d s = [s]"
  by (induction s) auto

lemma split_on_first_separator:
  "d \<notin> set a \<Longrightarrow> split_on d (a @ d # b) = a # split_on d b"
  by (induction a) auto

lemma trim_unchanged:
  assumes "s \<noteq> []" and "\<not> isWhiteSpace (hd s)" and "\<not> isWhiteSpace (last s)"
  shows "trim s = s"
proof -
  have at_front: "dropWhile isWhiteSpace s = s"
    using assms(1,2) by (cases s) auto
  have "rev s \<noteq> []" and "\<not> isWhiteSpace (hd (rev s))"
    using assms(1,3) by (simp_all add: hd_rev)
  then have at_back: "dropWhile isWhiteSpace (rev s) = rev s"
    by (cases "rev s") auto
  show ?thesis
    by (simp add: trim_def at_front at_back)
qed

lemma segments_Type_field:
  assumes "written_as path type field"
  shows "segments path = [type, field]"
proof -
  have path: "path = type @ dot # field" and ne: "type \<noteq> []" "field \<noteq> []"
    and dots: "dot \<notin> set type" "dot \<notin> set field"
    and ends: "\<not> isWhiteSpace (hd type)" "\<not> isWhiteSpace (last field)"
    using assms by (simp_all add: written_as_def)
  have "trim (type @ dot # field) = type @ dot # field"
    using ne ends by (intro trim_unchanged) simp_all
  moreover have "split_on dot (type @ dot # field) = [type, field]"
    using dots by (simp add: split_on_first_separator split_on_no_separator)
  ultimately show ?thesis
    using ne path by (simp add: segments_def)
qed

text \<open>
  Trimming removes white space only, and the dot is not white space: the trimmed path
  has at most as many non-empty segments as the path itself.
\<close>

lemma split_on_not_Nil: "split_on d s \<noteq> []"
  by (induction s) (auto split: list.splits)

lemma count_drop_first:
  assumes "c \<noteq> d"
  shows "nonempty_count (split_on d s) \<le> nonempty_count (split_on d (c # s))"
  using assms split_on_not_Nil [of d s]
  by (cases "split_on d s") (auto simp: nonempty_count_def)

lemma count_drop_prefix:
  assumes "d \<notin> set w"
  shows "nonempty_count (split_on d s) \<le> nonempty_count (split_on d (w @ s))"
  using assms
proof (induction w)
  case Nil
  then show ?case by simp
next
  case (Cons c w)
  have "nonempty_count (split_on d (w @ s)) \<le> nonempty_count (split_on d (c # w @ s))"
    using Cons.prems by (intro count_drop_first) auto
  then show ?case
    using Cons by fastforce
qed

lemma count_drop_last:
  assumes "c \<noteq> d"
  shows "nonempty_count (split_on d s) \<le> nonempty_count (split_on d (s @ [c])) \<and>
         nonempty_count (tl (split_on d s)) \<le> nonempty_count (tl (split_on d (s @ [c])))"
proof (induction s)
  case Nil
  then show ?case
    using assms by (simp add: nonempty_count_def)
next
  case (Cons x s)
  show ?case
  proof (cases "x = d")
    case True
    then show ?thesis
      using Cons by (simp add: nonempty_count_def)
  next
    case False
    obtain a as where a: "split_on d s = a # as"
      using split_on_not_Nil [of d s] by (cases "split_on d s") auto
    obtain b bs where b: "split_on d (s @ [c]) = b # bs"
      using split_on_not_Nil [of d "s @ [c]"] by (cases "split_on d (s @ [c])") auto
    show ?thesis
      using False Cons a b by (simp add: nonempty_count_def)
  qed
qed

lemma count_drop_suffix:
  assumes "d \<notin> set w"
  shows "nonempty_count (split_on d s) \<le> nonempty_count (split_on d (s @ w))"
  using assms
proof (induction w arbitrary: s)
  case Nil
  then show ?case by simp
next
  case (Cons c w)
  have "nonempty_count (split_on d s) \<le> nonempty_count (split_on d (s @ [c]))"
    using Cons.prems count_drop_last [of c d s] by auto
  moreover have "nonempty_count (split_on d (s @ [c])) \<le>
      nonempty_count (split_on d ((s @ [c]) @ w))"
    using Cons.prems by (intro Cons.IH) auto
  ultimately show ?case
    by simp
qed

lemma dot_not_white: "\<not> isWhiteSpace dot"
  by (simp add: isWhiteSpace_def dot_def)

lemma dropWhile_at_end:
  "xs = rev (dropWhile P (rev xs)) @ rev (takeWhile P (rev xs))"
proof -
  have "rev (rev xs) = rev (takeWhile P (rev xs) @ dropWhile P (rev xs))"
    by (simp only: takeWhile_dropWhile_id)
  then show ?thesis
    by (simp only: rev_rev_ident rev_append)
qed

lemma trim_inside:
  "\<exists>w1 w2. s = w1 @ trim s @ w2 \<and> dot \<notin> set w1 \<and> dot \<notin> set w2"
proof -
  let ?t = "dropWhile isWhiteSpace s"
  let ?w1 = "takeWhile isWhiteSpace s"
  let ?w2 = "rev (takeWhile isWhiteSpace (rev ?t))"
  have t: "?t = trim s @ ?w2"
    unfolding trim_def by (rule dropWhile_at_end)
  have "s = ?w1 @ ?t"
    by simp
  then have s: "s = ?w1 @ trim s @ ?w2"
    using t by simp
  have w1: "dot \<notin> set ?w1"
    using dot_not_white by (auto dest: set_takeWhileD)
  have w2: "dot \<notin> set ?w2"
    using dot_not_white by (auto dest: set_takeWhileD)
  show ?thesis
    using s w1 w2 by blast
qed

lemma segments_at_most_raw:
  "length (segments path) \<le> nonempty_count (split_on dot path)"
proof -
  obtain w1 w2 where s: "path = w1 @ trim path @ w2" and w1: "dot \<notin> set w1"
    and w2: "dot \<notin> set w2"
    using trim_inside by blast
  have "nonempty_count (split_on dot (trim path)) \<le>
      nonempty_count (split_on dot (trim path @ w2))"
    using w2 by (rule count_drop_suffix)
  also have "\<dots> \<le> nonempty_count (split_on dot (w1 @ trim path @ w2))"
    using w1 by (rule count_drop_prefix)
  finally show ?thesis
    using s by (simp add: segments_def nonempty_count_def)
qed

lemma example_facade_eq:
  "example_facade db =
     \<lparr>connection = db, dbSchema = None, gqlSchema = None,
      compiler = \<lparr>c_dbSchema = None, c_dbDriver = None, c_private = ([], 0)\<rparr>,
      resolver = \<lparr>r_dbDriver = None, beforeHook = \<lparr>validator = None, rejected = None\<rparr>,
                  r_private = []\<rparr>,
      dbDriver = None\<rparr>"
  by (simp add: example_facade_def DB2Graphql_def example_env_def)

lemmas example_defs =
  example_env_def example_register_def example_getSDL_def example_entries_def
  example_facade_eq

text \<open>
  C2. When the path splits at its dots into fewer than two non-empty segments, counted
  on the trimmed path as the code does or on the path as it is given, \<^verbatim>\<open>addField\<close> and
  \<^verbatim>\<open>addInput\<close> throw their \<^verbatim>\<open>Error\<close> synchronously, and the facade, with the compiler's
  and the resolver engine's registries in it, is as it was before the call.
\<close>

theorem malformed_path_throws:
  assumes "length (segments path) < 2 \<or> nonempty_count (split_on dot path) < 2"
  shows "addField E path returns rfn params f =
           (Threw (Error ''addField path must be in format Type.field''), f) \<and>
         addInput E path subType f =
           (Threw (Error ''addInput path must be in format Input.field''), f)"
proof -
  have "length (segments path) < 2"
    using assms segments_at_most_raw [of path] by auto
  then show ?thesis
    by (simp add: addField_def addInput_def)
qed

theorem malformed_path_throws_witness:
  "length (segments (str ''Query. '')) < 2 \<and>
   \<not> nonempty_count (split_on dot (str ''Query. '')) < 2 \<and>
   nonempty_count (split_on dot (str ''getUser'')) < 2 \<and>
   addField example_env (str ''Query. '') (TypeName (str ''String'')) (UserFn 0) []
       (example_facade None) =
     (Threw (Error ''addField path must be in format Type.field''), example_facade None) \<and>
   addInput example_env (str ''getUser'') (TypeName (str ''String'')) (example_facade None) =
     (Threw (Error ''addInput path must be in format Input.field''), example_facade None)"
proof -
  have h: "length (segments (str ''Query. '')) < 2"
    by code_simp
  have n: "\<not> nonempty_count (split_on dot (str ''Query. '')) < 2"
    by code_simp
  have r: "nonempty_count (split_on dot (str ''getUser'')) < 2"
    by code_simp
  show ?thesis
    using h n r
      malformed_path_throws [of "str ''Query. ''" example_env "TypeName (str ''String'')"
        "UserFn 0" "[]" "example_facade None"]
      malformed_path_throws [of "str ''getUser''" example_env _ _ _ "example_facade None"
        "TypeName (str ''String'')"]
    by simp
qed

text \<open>
  C8. When the path has exactly the two segments \<open>type\<close> and \<open>field\<close>, in particular
  when it is written as \<open>type\<close>, a dot and \<open>field\<close>, \<^verbatim>\<open>addField\<close> does what
  \<^verbatim>\<open>add(type, field, returns, resolver, params)\<close> does: the compiler's \<^verbatim>\<open>addType\<close> and
  then the resolver engine's \<^verbatim>\<open>add\<close> are called with them, and when both return,
  \<^verbatim>\<open>addField\<close> returns the instance with the two updated.
\<close>

theorem addField_is_add:
  assumes "segments path = [type, field] \<or> written_as path type field"
  shows "addField E path returns rfn params f = add E type field returns rfn params f \<and>
         (\<forall>c' r'. Compiler_addType E type field returns params (compiler f) = (Returned (), c') \<longrightarrow>
            Resolver_add E type field rfn (resolver f) = (Returned (), r') \<longrightarrow>
            addField E path returns rfn params f =
              (Returned (), f\<lparr>compiler := c', resolver := r'\<rparr>))"
proof -
  have "segments path = [] @ [type, field]"
    using assms segments_Type_field [of path type field] by auto
  then have eq: "addField E path returns rfn params f = add E type field returns rfn params f"
    by (rule addField_pops)
  show ?thesis
    using eq by (auto simp: add_registers)
qed

theorem addField_is_add_witness:
  "written_as (str ''Query.getUser'') (str ''Query'') (str ''getUser'') \<and>
   segments (str ''Query.getUser'') = [str ''Query'', str ''getUser''] \<and>
   addField example_env (str ''Query.getUser'') (TypeName (str ''User'')) (UserFn 3) []
       (example_facade None) =
     add example_env (str ''Query'') (str ''getUser'') (TypeName (str ''User'')) (UserFn 3) []
       (example_facade None) \<and>
   addField example_env (str ''Query.getUser'') (TypeName (str ''User'')) (UserFn 3) []
       (example_facade None) =
     (Returned (),
      (example_facade None)
        \<lparr>compiler := \<lparr>c_dbSchema = None, c_dbDriver = None,
                       c_private = ([(str ''Query'', str ''getUser'')], 0)\<rparr>,
         resolver := \<lparr>r_dbDriver = None, beforeHook = \<lparr>validator = None, rejected = None\<rparr>,
                       r_private = [(str ''Query'', str ''getUser'')]\<rparr>\<rparr>)"
proof -
  have w: "written_as (str ''Query.getUser'') (str ''Query'') (str ''getUser'')"
    by (simp add: written_as_def str_def dot_def isWhiteSpace_def)
  have h: "segments (str ''Query.getUser'') = [str ''Query'', str ''getUser'']"
    by code_simp
  have c: "Compiler_addType example_env (str ''Query'') (str ''getUser'') (TypeName (str ''User''))
      [] (compiler (example_facade None)) =
    (Returned (), \<lparr>c_dbSchema = None, c_dbDriver = None,
                       c_private = ([(str ''Query'', str ''getUser'')], 0)\<rparr>)"
    by (simp add: example_defs)
  have r: "Resolver_add example_env (str ''Query'') (str ''getUser'') (UserFn 3)
      (resolver (example_facade None)) =
    (Returned (), \<lparr>r_dbDriver = None, beforeHook = \<lparr>validator = None, rejected = None\<rparr>,
                       r_private = [(str ''Query'', str ''getUser'')]\<rparr>)"
    by (simp add: example_defs)
  have either: "segments (str ''Query.getUser'') = [str ''Query'', str ''getUser''] \<or>
      written_as (str ''Query.getUser'') (str ''Query'') (str ''getUser'')"
    using w by (rule disjI2)
  note t = addField_is_add [OF either, of example_env "TypeName (str ''User'')" "UserFn 3" "[]"
        "example_facade None"]
  have eq1: "addField example_env (str ''Query.getUser'') (TypeName (str ''User'')) (UserFn 3) []
       (example_facade None) =
     add example_env (str ''Query'') (str ''getUser'') (TypeName (str ''User'')) (UserFn 3) []
       (example_facade None)"
    using t by (rule conjunct1)
  have eq2: "addField example_env (str ''Query.getUser'') (TypeName (str ''User'')) (UserFn 3) []
       (example_facade None) =
     (Returned (),
      (example_facade None)
        \<lparr>compiler := \<lparr>c_dbSchema = None, c_dbDriver = None,
                       c_private = ([(str ''Query'', str ''getUser'')], 0)\<rparr>,
         resolver := \<lparr>r_dbDriver = None, beforeHook = \<lparr>validator = None, rejected = None\<rparr>,
                       r_private = [(str ''Query'', str ''getUser'')]\<rparr>\<rparr>)"
    using t c r by blast
  show ?thesis
    using w h eq1 eq2 by blast
qed



section \<open>The before-hook\<close>

lemma hook_on_compiler: "hook (snd (on_compiler m f)) = hook f"
  by (simp add: on_compiler_def hook_def split: prod.splits)

lemma hook_on_resolver:
  assumes "\<And>r. beforeHook (snd (m r)) = beforeHook r"
  shows "hook (snd (on_resolver m f)) = hook f"
  using assms [of "resolver f"] by (auto simp: on_resolver_def hook_def split: prod.splits)

lemma hook_seq:
  assumes "\<And>g. hook (snd (m g)) = hook g"
      and "\<And>g. hook (snd (k g)) = hook g"
  shows "hook (snd (seq m k f)) = hook f"
proof (cases "m f")
  case (Pair x f')
  have "hook f' = hook f"
    using assms(1) [of f] Pair by simp
  then show ?thesis
    using Pair assms(2) [of f'] by (cases x) (simp_all add: seq_def)
qed

lemma hook_add:
  assumes "keeps_hook E"
  shows "hook (snd (add E type field returns rfn params f)) = hook f"
  unfolding add_def
proof (intro hook_seq hook_on_compiler hook_on_resolver)
  fix r
  show "beforeHook (snd (Resolver_add E type field rfn r)) = beforeHook r"
    using assms by (simp add: keeps_hook_def)
qed

lemma hook_addField:
  "keeps_hook E \<Longrightarrow> hook (snd (addField E path returns rfn params f)) = hook f"
  by (simp add: addField_def Let_def hook_add)

lemma hook_addInput: "hook (snd (addInput E path subType f)) = hook f"
  by (simp add: addInput_def Let_def hook_on_compiler)

lemma hook_connect_body: "hook (snd (connect_body E namespace f)) = hook f"
  by (simp add: connect_body_def Let_def hook_def
      split: option.splits driver_entry.splits result.splits promise.splits prod.splits)

lemma hook_connect: "hook (snd (connect E namespace f)) = hook f"
  by (simp add: connect_def async_def hook_connect_body)

lemma hook_getDatabaseSchema: "hook (snd (getDatabaseSchema E refresh f)) = hook f"
proof (cases "connect_body E [] f")
  case (Pair p f')
  then have "hook f' = hook f"
    using hook_connect_body [of E "[]" f] by simp
  then show ?thesis
    using Pair
    by (cases p) (simp_all add: getDatabaseSchema_def async_def getDatabaseSchema_body_def)
qed

lemma hook_getResolvers:
  assumes "keeps_hook E"
  shows "hook (snd (getResolvers E f)) = hook f"
  unfolding getResolvers_def
proof (rule hook_on_resolver)
  fix r
  show "beforeHook (snd (Resolver_getResolvers E (hasConnection f) r)) = beforeHook r"
    using assms by (simp add: keeps_hook_def)
qed

lemma hook_getSchema: "hook (snd (getSchema E refresh f)) = hook f"
  by (simp add: getSchema_def render_def hook_def split: option.splits prod.splits result.splits)

lemma hook_withBuilder:
  assumes "keeps_hook E"
  shows "hook (snd (withBuilder E f)) = hook f"
  unfolding withBuilder_def by (intro hook_seq hook_add assms)

lemma hook_after_call:
  assumes "keeps_hook E" and "\<forall>v r. c \<noteq> CallOnBefore v r"
  shows "hook (after_call E c f) = hook f"
proof (cases c)
  case (CallOnBefore v r)
  then show ?thesis
    using assms(2) by blast
qed (simp_all add: after_call_def assms(1) hook_add hook_addField hook_addInput hook_connect
       hook_getDatabaseSchema hook_getResolvers hook_getSchema hook_withBuilder)

lemma hook_after_calls:
  assumes "keeps_hook E" and "\<forall>c\<in>set cs. \<forall>v r. c \<noteq> CallOnBefore v r"
  shows "hook (after_calls E cs f) = hook f"
  using assms(2)
proof (induction cs arbitrary: f)
  case Nil
  then show ?case by simp
next
  case (Cons c cs)
  have "hook (after_call E c f) = hook f"
    using assms(1) Cons.prems by (intro hook_after_call) simp_all
  moreover have "hook (after_calls E cs (after_call E c f)) = hook (after_call E c f)"
    using Cons.prems by (intro Cons.IH) simp
  ultimately show ?case
    by simp
qed

lemma example_keeps_hook: "keeps_hook example_env"
  by (simp add: keeps_hook_def example_env_def)

text \<open>
  C6. After \<^verbatim>\<open>onBefore(v1, r1)\<close> and then \<^verbatim>\<open>onBefore(v2, r2)\<close> with a function \<open>r2\<close>,
  the before-hook of the resolver engine holds \<open>v2\<close> and \<open>r2\<close>, whatever happened to the
  facade between the two calls (\<open>between\<close> is any change of its state). Among the
  methods of the facade \<^verbatim>\<open>onBefore\<close> is the only one that assigns the hook: a sequence
  of calls of the others leaves it as the first call set it, provided the resolver
  engine's own \<^verbatim>\<open>add\<close> and \<^verbatim>\<open>getResolvers\<close> do not assign it.
\<close>

theorem onBefore_last_writer_wins:
  "hook (snd (onBefore v2 (Some r2) (between (snd (onBefore v1 r1 f))))) =
     \<lparr>validator = v2, rejected = Some r2\<rparr> \<and>
   (keeps_hook E \<longrightarrow> (\<forall>c\<in>set calls. \<forall>v r. c \<noteq> CallOnBefore v r) \<longrightarrow>
      hook (snd (onBefore v2 (Some r2) (after_calls E calls (snd (onBefore v1 r1 f))))) =
        \<lparr>validator = v2, rejected = Some r2\<rparr> \<and>
      hook (after_calls E calls (snd (onBefore v1 r1 f))) = hook (snd (onBefore v1 r1 f)))"
  by (simp add: hook_after_calls) (simp add: onBefore_def hook_def)

theorem onBefore_last_writer_wins_witness:
  "hook (snd (onBefore (Some 4) (Some 5)
       (after_calls example_env
          [CallAdd (str ''Query'') (str ''hello'') (TypeName (str ''String'')) (UserFn 1) [],
           CallGetResolvers]
          (snd (onBefore (Some 2) (Some 3) (example_facade None)))))) =
     \<lparr>validator = Some 4, rejected = Some 5\<rparr> \<and>
   hook (after_calls example_env
          [CallAdd (str ''Query'') (str ''hello'') (TypeName (str ''String'')) (UserFn 1) [],
           CallGetResolvers]
          (snd (onBefore (Some 2) (Some 3) (example_facade None)))) =
     \<lparr>validator = Some 2, rejected = Some 3\<rparr>"
proof -
  let ?calls = "[CallAdd (str ''Query'') (str ''hello'') (TypeName (str ''String'')) (UserFn 1) [],
           CallGetResolvers]"
  have calls: "\<forall>c\<in>set ?calls. \<forall>v r. c \<noteq> CallOnBefore v r"
    by simp
  have first: "hook (snd (onBefore (Some 2) (Some 3) (example_facade None))) =
      \<lparr>validator = Some 2, rejected = Some 3\<rparr>"
    by (simp add: onBefore_def hook_def example_facade_eq)
  show ?thesis
    using example_keeps_hook calls first
      onBefore_last_writer_wins [of "Some 4" 5 "\<lambda>f. f" "Some 2" "Some 3" "example_facade None"
        example_env ?calls]
    by simp
qed

text \<open>
  C10. \<^verbatim>\<open>onBefore(validator)\<close> with the second argument omitted or falsy replaces the
  validator slot only: the rejected callback configured before stays, and so does
  everything else in the facade.
\<close>

theorem onBefore_without_rejected:
  "snd (onBefore v None f) =
     f\<lparr>resolver := (resolver f)\<lparr>beforeHook := (beforeHook (resolver f))\<lparr>validator := v\<rparr>\<rparr>\<rparr> \<and>
   rejected (hook (snd (onBefore v None f))) = rejected (hook f) \<and>
   validator (hook (snd (onBefore v None f))) = v"
  by (simp add: onBefore_def hook_def)

section \<open>Connecting\<close>

lemma drivers_unknown:
  assumes "key \<notin> {str ''pg'', str ''mysql''}"
      and "key \<notin> set (str ''constructor'' # inherited_names)"
  shows "drivers key = None"
  using assms by (simp add: drivers_def)

lemma sqlite3_unknown:
  "str ''sqlite3'' \<notin> {str ''pg'', str ''mysql''} \<and>
   str ''sqlite3'' \<notin> set (str ''constructor'' # inherited_names)"
  by (simp add: str_def inherited_names_def)

text \<open>
  C3, as the code has it. \<^verbatim>\<open>connect\<close> is an \<^verbatim>\<open>async\<close> method, so the call returns a
  promise and throws nothing. When the connection is \<^verbatim>\<open>null\<close>, and when the driver key
  is neither \<^verbatim>\<open>pg\<close> nor \<^verbatim>\<open>mysql\<close> nor the name of a property that the \<^verbatim>\<open>drivers\<close> object
  inherits from \<^verbatim>\<open>Object.prototype\<close>, that promise is rejected with the error, no adapter
  is constructed, no introspection is attempted (the result does not depend on the
  collaborators \<open>E\<close>), and the facade, \<^verbatim>\<open>dbSchema\<close> and \<^verbatim>\<open>dbDriver\<close> included, is
  unchanged.
\<close>

theorem connect_rejects_configuration_errors:
  "(connection f = None \<longrightarrow>
      connect E namespace f = (Returned (Rejected (Error ''Invalid Knex instance'')), f)) \<and>
   (\<forall>config. connection f = Some config \<longrightarrow>
      client config \<notin> {str ''pg'', str ''mysql''} \<longrightarrow>
      client config \<notin> set (str ''constructor'' # inherited_names) \<longrightarrow>
      connect E namespace f =
        (Returned (Rejected (Error ''Database driver not available'')), f))"
  by (auto simp: connect_def async_def connect_body_def drivers_unknown)

theorem connect_rejects_configuration_errors_witness:
  "connection (example_facade None) = None \<and>
   connect example_env [] (example_facade None) =
     (Returned (Rejected (Error ''Invalid Knex instance'')), example_facade None) \<and>
   connection (example_facade (Some (example_config (str ''sqlite3'')))) =
     Some (example_config (str ''sqlite3'')) \<and>
   str ''sqlite3'' \<notin> {str ''pg'', str ''mysql''} \<and>
   str ''sqlite3'' \<notin> set (str ''constructor'' # inherited_names) \<and>
   connect example_env [] (example_facade (Some (example_config (str ''sqlite3'')))) =
     (Returned (Rejected (Error ''Database driver not available'')),
      example_facade (Some (example_config (str ''sqlite3''))))"
proof -
  have a: "connection (example_facade None) = None"
    by (simp add: example_facade_eq)
  have b: "connection (example_facade (Some (example_config (str ''sqlite3'')))) =
     Some (example_config (str ''sqlite3''))"
    by (simp add: example_facade_eq)
  have c: "client (example_config (str ''sqlite3'')) = str ''sqlite3''"
    by (simp add: example_config_def)
  show ?thesis
    using a b c sqlite3_unknown
      connect_rejects_configuration_errors [of "example_facade None" example_env "[]"]
      connect_rejects_configuration_errors
        [of "example_facade (Some (example_config (str ''sqlite3'')))" example_env "[]"]
    by simp
qed

text \<open>
  C3 as stated fails twice. With a \<^verbatim>\<open>null\<close> connection the call of \<^verbatim>\<open>connect\<close> returns
  a rejected promise: it does not throw to its caller. And with the driver key
  \<^verbatim>\<open>constructor\<close>, which is outside \<^verbatim>\<open>pg\<close> and \<^verbatim>\<open>mysql\<close>, the lookup in \<^verbatim>\<open>drivers\<close> finds
  the inherited \<^verbatim>\<open>Object\<close>, the check passes, and \<^verbatim>\<open>dbDriver\<close> is assigned the Knex
  instance before the call of its missing \<^verbatim>\<open>getSchema\<close> rejects the promise.
\<close>

theorem connect_not_synchronous_counterexample:
  "fst (connect example_env [] (example_facade None)) =
     Returned (Rejected (Error ''Invalid Knex instance'')) \<and>
   (\<forall>e. fst (connect example_env [] (example_facade None)) \<noteq> Threw e) \<and>
   client (example_config (str ''constructor'')) \<notin> {str ''pg'', str ''mysql''} \<and>
   dbDriver (example_facade (Some (example_config (str ''constructor'')))) = None \<and>
   dbDriver (snd (connect example_env []
       (example_facade (Some (example_config (str ''constructor'')))))) = Some KnexInstance"
proof -
  have k: "drivers (str ''constructor'') = Some ObjectConstructor"
    by (simp add: drivers_def str_def)
  have n: "str ''constructor'' \<notin> {str ''pg'', str ''mysql''}"
    by (simp add: str_def)
  show ?thesis
    using k n
    by (simp add: connect_def async_def connect_body_def example_facade_eq example_config_def
        Let_def)
qed

section \<open>The cached schema text\<close>

lemma kept_on_compiler: "cache_and_flag (snd (on_compiler m f)) = cache_and_flag f"
  by (simp add: on_compiler_def cache_and_flag_def hasConnection_def split: prod.splits)

lemma kept_on_resolver: "cache_and_flag (snd (on_resolver m f)) = cache_and_flag f"
  by (simp add: on_resolver_def cache_and_flag_def hasConnection_def split: prod.splits)

lemma kept_seq:
  assumes "\<And>g. cache_and_flag (snd (m g)) = cache_and_flag g"
      and "\<And>g. cache_and_flag (snd (k g)) = cache_and_flag g"
  shows "cache_and_flag (snd (seq m k f)) = cache_and_flag f"
proof (cases "m f")
  case (Pair x f')
  have "cache_and_flag f' = cache_and_flag f"
    using assms(1) [of f] Pair by simp
  then show ?thesis
    using Pair assms(2) [of f'] by (cases x) (simp_all add: seq_def)
qed

lemma kept_add: "cache_and_flag (snd (add E type field returns rfn params f)) = cache_and_flag f"
  unfolding add_def by (intro kept_seq kept_on_compiler kept_on_resolver)

lemma kept_addField:
  "cache_and_flag (snd (addField E path returns rfn params f)) = cache_and_flag f"
  by (simp add: addField_def Let_def kept_add)

lemma kept_addInput: "cache_and_flag (snd (addInput E path subType f)) = cache_and_flag f"
  by (simp add: addInput_def Let_def kept_on_compiler)

lemma kept_onBefore: "cache_and_flag (snd (onBefore v r f)) = cache_and_flag f"
  by (simp add: onBefore_def Let_def cache_and_flag_def hasConnection_def)

lemma kept_connect_body: "cache_and_flag (snd (connect_body E namespace f)) = cache_and_flag f"
  by (simp add: connect_body_def Let_def cache_and_flag_def hasConnection_def
      split: option.splits driver_entry.splits result.splits promise.splits prod.splits)

lemma kept_connect: "cache_and_flag (snd (connect E namespace f)) = cache_and_flag f"
  by (simp add: connect_def async_def kept_connect_body)

lemma kept_getDatabaseSchema:
  "cache_and_flag (snd (getDatabaseSchema E refresh f)) = cache_and_flag f"
proof (cases "connect_body E [] f")
  case (Pair p f')
  then have "cache_and_flag f' = cache_and_flag f"
    using kept_connect_body [of E "[]" f] by simp
  then show ?thesis
    using Pair
    by (cases p) (simp_all add: getDatabaseSchema_def async_def getDatabaseSchema_body_def)
qed

lemma kept_getResolvers: "cache_and_flag (snd (getResolvers E f)) = cache_and_flag f"
  by (simp add: getResolvers_def kept_on_resolver)

lemma kept_withBuilder: "cache_and_flag (snd (withBuilder E f)) = cache_and_flag f"
  unfolding withBuilder_def by (intro kept_seq kept_add)

lemma kept_after_call:
  assumes "\<forall>refresh. c \<noteq> CallGetSchema refresh"
  shows "cache_and_flag (after_call E c f) = cache_and_flag f"
proof (cases c)
  case (CallGetSchema refresh)
  then show ?thesis
    using assms by blast
qed (simp_all add: after_call_def kept_add kept_addField kept_addInput kept_onBefore
        kept_connect kept_getDatabaseSchema kept_getResolvers kept_withBuilder)

lemma render_flag: "hasConnection (snd (render E refresh f)) = hasConnection f"
  by (simp add: render_def hasConnection_def split: prod.splits result.splits)

lemma getSchema_flag: "hasConnection (snd (getSchema E refresh f)) = hasConnection f"
  by (simp add: getSchema_def render_flag split: option.splits)

lemma flag_after_call: "hasConnection (after_call E c f) = hasConnection f"
proof (cases "\<exists>refresh. c = CallGetSchema refresh")
  case True
  then show ?thesis
    by (auto simp: after_call_def getSchema_flag)
next
  case False
  then have "\<forall>refresh. c \<noteq> CallGetSchema refresh"
    by simp
  then have "cache_and_flag (after_call E c f) = cache_and_flag f"
    by (rule kept_after_call)
  then show ?thesis
    by (simp add: cache_and_flag_def)
qed

lemma flag_after_calls: "hasConnection (after_calls E cs f) = hasConnection f"
  by (induction cs arbitrary: f) (simp_all add: flag_after_call)

lemma getSchema_hit:
  assumes "gqlSchema f = Some t" and "t \<noteq> []"
  shows "getSchema E False f = (Returned t, f)"
  using assms by (simp add: getSchema_def)

lemma getSchema_stores:
  assumes "getSchema E refresh f = (Returned t, f1)" and "t \<noteq> []"
  shows "gqlSchema f1 = Some t"
  using assms
  by (auto simp: getSchema_def render_def split: option.splits if_splits prod.splits result.splits)

lemma cached_after_call:
  assumes "gqlSchema f = Some t" and "t \<noteq> []" and "c \<noteq> CallGetSchema True"
  shows "gqlSchema (after_call E c f) = Some t"
proof (cases "c = CallGetSchema False")
  case True
  then show ?thesis
    using assms(1,2) by (simp add: after_call_def getSchema_hit)
next
  case False
  with assms(3) have "\<forall>refresh. c \<noteq> CallGetSchema refresh"
    by (metis (full_types))
  then have "cache_and_flag (after_call E c f) = cache_and_flag f"
    by (rule kept_after_call)
  then show ?thesis
    using assms(1) by (simp add: cache_and_flag_def)
qed

lemma cached_after_calls:
  assumes "gqlSchema f = Some t" and "t \<noteq> []" and "\<forall>c\<in>set cs. c \<noteq> CallGetSchema True"
  shows "gqlSchema (after_calls E cs f) = Some t"
  using assms
proof (induction cs arbitrary: f)
  case Nil
  then show ?case by simp
next
  case (Cons c cs)
  have "gqlSchema (after_call E c f) = Some t"
    using Cons.prems by (intro cached_after_call) simp_all
  then show ?case
    using Cons by simp
qed

lemma example_first_rendering:
  "getSchema example_env False example_registered =
     (Returned (str ''type Query.hello;''), example_rendered)"
  by (simp add: getSchema_def render_def hasConnection_def example_registered_def
      example_rendered_def example_defs str_def)

text \<open>
  C4, as the code has it. After a call of \<^verbatim>\<open>getSchema\<close> that returned a text that is not
  empty, every later call with \<^verbatim>\<open>refresh = false\<close> returns that text and leaves the facade
  as it is, so the compiler is not asked again, whatever calls of the facade's methods
  came in between, short of \<^verbatim>\<open>getSchema(true)\<close>: a change of the registry through
  \<^verbatim>\<open>add\<close>, \<^verbatim>\<open>addField\<close> or \<^verbatim>\<open>addInput\<close> does not produce a fresh rendering, and neither
  does \<^verbatim>\<open>connect\<close>. A call with \<^verbatim>\<open>refresh = true\<close> always asks the compiler.
\<close>

theorem getSchema_cached:
  assumes "getSchema E refresh f = (Returned t, f1)" and "t \<noteq> []"
      and "\<forall>c\<in>set calls. c \<noteq> CallGetSchema True"
  shows "getSchema E False (after_calls E calls f1) = (Returned t, after_calls E calls f1) \<and>
         getSchema E True (after_calls E calls f1) = render E True (after_calls E calls f1)"
proof -
  have "gqlSchema f1 = Some t"
    using assms(1,2) by (rule getSchema_stores)
  then have "gqlSchema (after_calls E calls f1) = Some t"
    using assms(2,3) by (rule cached_after_calls)
  then show ?thesis
    using assms(2) by (simp add: getSchema_hit) (simp add: getSchema_def)
qed

theorem getSchema_cached_witness:
  "getSchema example_env False
     (after_calls example_env
        [CallAdd (str ''Query'') (str ''other'') (TypeName (str ''Int'')) (UserFn 2) [],
         CallGetSchema False, CallConnect []] example_rendered) =
   (Returned (str ''type Query.hello;''),
    after_calls example_env
        [CallAdd (str ''Query'') (str ''other'') (TypeName (str ''Int'')) (UserFn 2) [],
         CallGetSchema False, CallConnect []] example_rendered) \<and>
   fst (c_private (compiler (after_calls example_env
        [CallAdd (str ''Query'') (str ''other'') (TypeName (str ''Int'')) (UserFn 2) [],
         CallGetSchema False, CallConnect []] example_rendered))) =
     [(str ''Query'', str ''hello''), (str ''Query'', str ''other'')]"
proof -
  let ?calls = "[CallAdd (str ''Query'') (str ''other'') (TypeName (str ''Int'')) (UserFn 2) [],
         CallGetSchema False, CallConnect []]"
  have ne: "str ''type Query.hello;'' \<noteq> []"
    by (simp add: str_def)
  have calls: "\<forall>c\<in>set ?calls. c \<noteq> CallGetSchema True"
    by simp
  have reg: "fst (c_private (compiler (after_calls example_env ?calls example_rendered))) =
     [(str ''Query'', str ''hello''), (str ''Query'', str ''other'')]"
    by (simp add: after_call_def add_def seq_def on_compiler_def on_resolver_def
        getSchema_def connect_def async_def connect_body_def
        example_rendered_def example_registered_def example_defs str_def)
  show ?thesis
    using reg getSchema_cached [OF example_first_rendering ne calls] by simp
qed

text \<open>
  C4 as stated fails in two ways. When the rendered text is empty it is not cached:
  \<^verbatim>\<open>!this.gqlSchema\<close> holds for the empty string as for \<^verbatim>\<open>null\<close>, so on a facade with
  no connection and nothing registered, where the example compiler renders the empty
  text, the second call with \<^verbatim>\<open>refresh = false\<close> makes the compiler render again. And a
  change of the registry does not produce a fresh rendering: after
  \<^verbatim>\<open>add('Query', 'other', ...)\<close> the facade still returns the text rendered before,
  which differs from what the compiler would render now.
\<close>

theorem getSchema_empty_text_counterexample:
  "fst (getSchema example_env False (example_facade None)) = Returned [] \<and>
   getSchema example_env False (snd (getSchema example_env False (example_facade None))) \<noteq>
     (Returned [], snd (getSchema example_env False (example_facade None))) \<and>
   snd (c_private (compiler (snd (getSchema example_env False (example_facade None))))) = 1 \<and>
   snd (c_private (compiler (snd (getSchema example_env False
          (snd (getSchema example_env False (example_facade None))))))) = 2 \<and>
   getSchema example_env False example_registered =
     (Returned (str ''type Query.hello;''), example_rendered) \<and>
   fst (getSchema example_env False
          (after_call example_env
             (CallAdd (str ''Query'') (str ''other'') (TypeName (str ''Int'')) (UserFn 2) [])
             example_rendered)) = Returned (str ''type Query.hello;'') \<and>
   fst (render example_env False
          (after_call example_env
             (CallAdd (str ''Query'') (str ''other'') (TypeName (str ''Int'')) (UserFn 2) [])
             example_rendered)) = Returned (str ''type Query.hello;type Query.other;'')"
proof -
  have empty: "fst (getSchema example_env False (example_facade None)) = Returned [] \<and>
   getSchema example_env False (snd (getSchema example_env False (example_facade None))) \<noteq>
     (Returned [], snd (getSchema example_env False (example_facade None))) \<and>
   snd (c_private (compiler (snd (getSchema example_env False (example_facade None))))) = 1 \<and>
   snd (c_private (compiler (snd (getSchema example_env False
          (snd (getSchema example_env False (example_facade None))))))) = 2"
    by (simp add: getSchema_def render_def hasConnection_def example_defs)
  have stale: "fst (getSchema example_env False
          (after_call example_env
             (CallAdd (str ''Query'') (str ''other'') (TypeName (str ''Int'')) (UserFn 2) [])
             example_rendered)) = Returned (str ''type Query.hello;'') \<and>
   fst (render example_env False
          (after_call example_env
             (CallAdd (str ''Query'') (str ''other'') (TypeName (str ''Int'')) (UserFn 2) [])
             example_rendered)) = Returned (str ''type Query.hello;type Query.other;'')"
    by (simp add: after_call_def add_def seq_def on_compiler_def on_resolver_def
        getSchema_def render_def hasConnection_def
        example_rendered_def example_registered_def example_defs str_def)
  show ?thesis
    using empty stale example_first_rendering by blast
qed

section \<open>A facade without connection\<close>

lemma render_passes_flag:
  "fst (render E refresh f) = fst (Compiler_getSDL E refresh (hasConnection f) (compiler f))"
  by (simp add: render_def split: prod.splits result.splits)

lemma render_text:
  assumes "\<forall>refresh c t c'. Compiler_getSDL E refresh False c = (Returned t, c') \<longrightarrow> P t"
      and "\<not> hasConnection f"
      and "render E refresh f = (Returned t, g)"
  shows "P t \<and> gqlSchema g = Some t"
proof (cases "Compiler_getSDL E refresh False (compiler f)")
  case (Pair x c')
  then show ?thesis
    using assms by (cases x) (auto simp: render_def)
qed

lemma render_failed:
  assumes "render E refresh f = (Threw e, g)"
  shows "gqlSchema g = gqlSchema f"
  using assms by (auto simp: render_def split: prod.splits result.splits)

lemma getSchema_text:
  assumes "\<forall>refresh c t c'. Compiler_getSDL E refresh False c = (Returned t, c') \<longrightarrow> P t"
      and "\<not> hasConnection f"
      and "\<forall>t. gqlSchema f = Some t \<longrightarrow> P t"
  shows "(\<forall>t g. getSchema E refresh f = (Returned t, g) \<longrightarrow> P t) \<and>
         (\<forall>t. gqlSchema (snd (getSchema E refresh f)) = Some t \<longrightarrow> P t)"
proof (cases "render E refresh f")
  case (Pair x g)
  show ?thesis
  proof (cases x)
    case (Returned t')
    then have "P t' \<and> gqlSchema g = Some t'"
      using render_text [OF assms(1,2)] Pair by simp
    then show ?thesis
      using assms(3) Pair Returned by (auto simp: getSchema_def split: option.splits if_splits)
  next
    case (Threw e)
    then have "gqlSchema g = gqlSchema f"
      using render_failed Pair by simp
    then show ?thesis
      using assms(3) Pair Threw by (auto simp: getSchema_def split: option.splits if_splits)
  qed
qed

lemma texts_after_call:
  assumes "\<forall>refresh c t c'. Compiler_getSDL E refresh False c = (Returned t, c') \<longrightarrow> P t"
      and "\<not> hasConnection f"
      and "\<forall>t. gqlSchema f = Some t \<longrightarrow> P t"
  shows "\<forall>t. gqlSchema (after_call E c f) = Some t \<longrightarrow> P t"
proof (cases "\<exists>refresh. c = CallGetSchema refresh")
  case True
  then show ?thesis
    using getSchema_text [OF assms] by (auto simp: after_call_def)
next
  case False
  then have "\<forall>refresh. c \<noteq> CallGetSchema refresh"
    by simp
  then have "cache_and_flag (after_call E c f) = cache_and_flag f"
    by (rule kept_after_call)
  then show ?thesis
    using assms(3) by (simp add: cache_and_flag_def)
qed

lemma texts_after_calls:
  assumes "\<forall>refresh c t c'. Compiler_getSDL E refresh False c = (Returned t, c') \<longrightarrow> P t"
      and "\<not> hasConnection f"
      and "\<forall>t. gqlSchema f = Some t \<longrightarrow> P t"
  shows "\<forall>t. gqlSchema (after_calls E cs f) = Some t \<longrightarrow> P t"
  using assms(2,3)
proof (induction cs arbitrary: f)
  case Nil
  then show ?case by simp
next
  case (Cons c cs)
  have flag: "\<not> hasConnection (after_call E c f)"
    using Cons.prems(1) by (simp add: flag_after_call)
  have texts: "\<forall>t. gqlSchema (after_call E c f) = Some t \<longrightarrow> P t"
    using texts_after_call [OF assms(1) Cons.prems] .
  have "\<forall>t. gqlSchema (after_calls E cs (after_call E c f)) = Some t \<longrightarrow> P t"
    using flag texts by (rule Cons.IH)
  then show ?case
    by simp
qed

lemma constructed_without_connection:
  assumes "DB2Graphql E name None = (x, f0)"
  shows "cache_and_flag f0 = (None, False)"
proof (cases "name = []")
  case True
  then show ?thesis
    using assms by (auto simp: DB2Graphql_def cache_and_flag_def hasConnection_def)
next
  case False
  let ?new = "\<lparr>connection = None, dbSchema = None, gqlSchema = None,
      compiler = new_Compiler E, resolver = new_Resolver E, dbDriver = None\<rparr>"
  have "f0 = snd (add E (str ''Query'') (str ''getAPIName'') (TypeName (str ''String''))
                (GetAPIName name) [] ?new)"
    using assms False by (simp add: DB2Graphql_def)
  then have "cache_and_flag f0 = cache_and_flag ?new"
    by (simp add: kept_add)
  then show ?thesis
    by (simp add: cache_and_flag_def hasConnection_def)
qed

text \<open>
  C5. On a facade constructed without a connection, after any sequence of calls of its
  methods, there is still no connection, so \<^verbatim>\<open>getSchema\<close> calls the compiler's
  \<^verbatim>\<open>getSDL\<close> with the flag \<^verbatim>\<open>false\<close> and \<^verbatim>\<open>getResolvers\<close> passes the same flag to the
  resolver engine. Hence whatever holds of every text that the compiler renders under
  the flag \<^verbatim>\<open>false\<close> (\<open>P\<close>: it has the manually added types only, no type of a database
  table) holds of every text that \<^verbatim>\<open>getSchema\<close> returns, the cached ones included.
\<close>

theorem without_connection_flag_is_false:
  assumes "DB2Graphql E name None = (Returned (), f0)"
      and "\<forall>refresh c t c'. Compiler_getSDL E refresh False c = (Returned t, c') \<longrightarrow> P t"
  shows "\<not> hasConnection (after_calls E calls f0) \<and>
         fst (render E refresh (after_calls E calls f0)) =
           fst (Compiler_getSDL E refresh False (compiler (after_calls E calls f0))) \<and>
         getResolvers E (after_calls E calls f0) =
           on_resolver (Resolver_getResolvers E False) (after_calls E calls f0) \<and>
         (\<forall>t g. getSchema E refresh (after_calls E calls f0) = (Returned t, g) \<longrightarrow> P t)"
proof -
  have start: "cache_and_flag f0 = (None, False)"
    using assms(1) by (rule constructed_without_connection)
  then have none: "\<not> hasConnection f0" and empty: "\<forall>t. gqlSchema f0 = Some t \<longrightarrow> P t"
    by (simp_all add: cache_and_flag_def)
  have flag: "\<not> hasConnection (after_calls E calls f0)"
    using none by (simp add: flag_after_calls)
  have texts: "\<forall>t. gqlSchema (after_calls E calls f0) = Some t \<longrightarrow> P t"
    using texts_after_calls [OF assms(2) none empty] .
  have "\<forall>t g. getSchema E refresh (after_calls E calls f0) = (Returned t, g) \<longrightarrow> P t"
    using getSchema_text [OF assms(2) flag texts] by blast
  then show ?thesis
    using flag by (simp add: render_passes_flag getResolvers_def)
qed

theorem without_connection_flag_is_false_witness:
  "\<not> hasConnection (after_calls example_env
        [CallAddField (str ''Query.hello'') (TypeName (str ''String'')) (UserFn 1) [],
         CallConnect []] (example_facade None)) \<and>
   fst (getSchema example_env False (after_calls example_env
        [CallAddField (str ''Query.hello'') (TypeName (str ''String'')) (UserFn 1) [],
         CallConnect []] (example_facade None))) = Returned (str ''type Query.hello;'') \<and>
   take 1 (str ''type Query.hello;'') \<noteq> str ''#''"
proof -
  let ?calls = "[CallAddField (str ''Query.hello'') (TypeName (str ''String'')) (UserFn 1) [],
         CallConnect []]"
  let ?f = "after_calls example_env ?calls (example_facade None)"
  have new: "DB2Graphql example_env [] None = (Returned (), example_facade None)"
    by (simp add: example_facade_def DB2Graphql_def)
  have manual: "\<forall>refresh c t c'. Compiler_getSDL example_env refresh False c = (Returned t, c')
      \<longrightarrow> take 1 t \<noteq> str ''#''"
  proof (intro allI impI)
    fix refresh c t c'
    assume "Compiler_getSDL example_env refresh False c = (Returned t, c')"
    then have t: "t = example_entries (fst (c_private c))"
      by (auto simp: example_env_def example_getSDL_def)
    show "take 1 t \<noteq> str ''#''"
      unfolding t by (cases "fst (c_private c)") (auto simp: example_entries_def str_def)
  qed
  have segs: "segments (str ''Query.hello'') = [str ''Query'', str ''hello'']"
    by code_simp
  have state: "?f = example_registered"
    by (simp add: after_call_def addField_def segs add_def seq_def on_compiler_def
        on_resolver_def connect_def async_def connect_body_def example_defs Let_def
        example_registered_def)
  have shown: "fst (getSchema example_env False ?f) = Returned (str ''type Query.hello;'')"
    unfolding state by (simp add: example_first_rendering)
  note t = without_connection_flag_is_false [OF new manual, of ?calls False]
  have "take 1 (str ''type Query.hello;'') \<noteq> str ''#''"
    using t shown by (cases "getSchema example_env False ?f") auto
  then show ?thesis
    using t shown by blast
qed

section \<open>The resolvers of the schema builder\<close>

text \<open>
  C7. Each of the four resolvers fulfils its promise with \<^verbatim>\<open>true\<close> when the request to
  the query layer succeeds and with \<^verbatim>\<open>false\<close> when it raises any error; \<^verbatim>\<open>addSchemaColumn\<close>
  and \<^verbatim>\<open>addSchemaTable\<close>, which read the available types of the attached adapter first,
  fulfil it with \<^verbatim>\<open>false\<close> and leave the database alone, whatever the query layer is,
  when the requested type is not among them.
\<close>

theorem builder_resolvers_return_booleans:
  assumes "checks_type b \<longrightarrow> r_dbDriver rs = Some (AdapterInstance a d)"
  shows "(checks_type b \<and> arg_type args \<notin> set (getAvailableTypes E a) \<longrightarrow>
            run_builder E exec b args rs db = (Fulfilled False, db)) \<and>
         (\<not> checks_type b \<or> arg_type args \<in> set (getAvailableTypes E a) \<longrightarrow>
            (\<forall>db'. exec (ddl_of b args) db = (None, db') \<longrightarrow>
               run_builder E exec b args rs db = (Fulfilled True, db')) \<and>
            (\<forall>err db'. exec (ddl_of b args) db = (Some err, db') \<longrightarrow>
               run_builder E exec b args rs db = (Fulfilled False, db')))"
  using assms
  by (cases b)
     (simp_all add: run_builder_def checked_ddl_def try_ddl_def availableTypes_def
        checks_type_def)

theorem builder_resolvers_return_booleans_witness:
  "run_builder example_env example_exec AddSchemaColumn example_args example_resolver [] =
     (Fulfilled True, [AlterTable (str ''posts'') [Column (str ''integer'') (str ''id'') None]]) \<and>
   run_builder example_env example_exec DropSchemaTable example_args example_resolver [] =
     (Fulfilled False, []) \<and>
   run_builder example_env example_exec AddSchemaTable
       (example_args\<lparr>arg_type := str ''jsonb''\<rparr>) example_resolver [] =
     (Fulfilled False, [])"
proof -
  have types: "getAvailableTypes example_env PostgreSQL =
      [str ''integer'', str ''string'', str ''boolean'']"
    by (simp add: example_env_def)
  have drv: "r_dbDriver example_resolver = Some (AdapterInstance PostgreSQL 0)"
    by (simp add: example_resolver_def)
  have ok: "arg_type example_args \<in> set (getAvailableTypes example_env PostgreSQL)"
    by (simp add: types example_args_def)
  have missing: "arg_type (example_args\<lparr>arg_type := str ''jsonb''\<rparr>) \<notin>
      set (getAvailableTypes example_env PostgreSQL)"
    by (simp add: types str_def)
  have e1: "example_exec (ddl_of AddSchemaColumn example_args) [] =
      (None, [AlterTable (str ''posts'') [Column (str ''integer'') (str ''id'') None]])"
    by (simp add: example_exec_def ddl_of_def example_args_def or_null_def truthy_def str_def)
  have e2: "example_exec (ddl_of DropSchemaTable example_args) [] = (Some (Foreign 1), [])"
    by (simp add: example_exec_def ddl_of_def)
  show ?thesis
    using ok missing e1 e2
      builder_resolvers_return_booleans [of AddSchemaColumn example_resolver PostgreSQL 0
        example_args example_env example_exec "[]"]
      builder_resolvers_return_booleans [of DropSchemaTable example_resolver PostgreSQL 0
        example_args example_env example_exec "[]"]
      builder_resolvers_return_booleans [of AddSchemaTable example_resolver PostgreSQL 0
        "example_args\<lparr>arg_type := str ''jsonb''\<rparr>" example_env example_exec "[]"]
    by (simp add: drv checks_type_def)
qed

section \<open>Relation names\<close>




text \<open>
  Whatever the hash is: when the candidate depends on the referenced table only, and the
  candidate and the column-suffixed name of the second key are assigned already, a
  first key whose column is the second key's column followed by its hash gets the name
  that the hash step then gives to the second key.
\<close>

lemma hash_step_collides:
  assumes "\<forall>C. candidate N C R = g"
  shows "\<exists>n. name_relations N T [g, g @ c]
           [\<lparr>fk_column = c @ short_hash N T c R, fk_referencedTable = R,
              fk_referencedColumn = x\<rparr>,
            \<lparr>fk_column = c, fk_referencedTable = R, fk_referencedColumn = y\<rparr>] =
           [((T, c @ short_hash N T c R), n), ((T, c), n)]"
  using assms by (simp add: relation_field_name_def Let_def)





end
